theory Spec2Isabelle
  imports Complex_Main
begin

section \<open>Values shared by the Scene Host and the Pointer Proxy\<close>

text \<open>
  The two classes of the repository, \<open>ModelDisplayer\<close> (the Scene Host) and
  \<open>CursorObject\<close> (the Pointer Proxy), are embedded as records with explicit state
  passing. JavaScript numbers are modelled as real numbers: every comparison the source
  makes (\<open>===\<close>, \<open><=\<close>) is the comparison of the reals, rounding of IEEE doubles is not
  modelled.
\<close>

subsection \<open>Animation names\<close>

text \<open>
  \<open>AnimationNameConstants\<close> is imported from \<open>animationConstants.js\<close>, which is not among
  the sources. The table is therefore a parameter of every operation that reads it: a
  record with one string per constant the sources use.
\<close>

record AnimationNameConstants =
  TOUCH :: string
  SHOES :: string
  HEAD :: string
  LA :: string
  SCROLL :: string
  CLICK :: string
  INDEX_FINGER :: string
  NONE :: string

text \<open>
  Modelled from the spec: the values of \<open>animationConstants.js\<close> are missing. The spec
  writes the names as "HEAD", "CLICK", "SCROLL" and "none"; the other constants are given
  their identifiers. This table is used for concrete examples only.
\<close>

definition animationConstants :: AnimationNameConstants where
  "animationConstants =
     \<lparr>TOUCH = ''TOUCH'', SHOES = ''SHOES'', HEAD = ''HEAD'', LA = ''LA'',
      SCROLL = ''SCROLL'', CLICK = ''CLICK'', INDEX_FINGER = ''INDEX_FINGER'',
      NONE = ''none''\<rparr>"

subsection \<open>Vectors\<close>

text \<open>
  Modelled from the spec: \<open>THREE.Vector3\<close> belongs to the rendering library, which is not
  among the sources. \<open>distanceTo\<close> is what the spec calls the Euclidean distance between
  two points, the square root of \<open>distanceToSquared\<close>.
\<close>

datatype Vector3 = Vector3 real real real

fun distanceToSquared :: "Vector3 \<Rightarrow> Vector3 \<Rightarrow> real" where
  "distanceToSquared (Vector3 px py pz) (Vector3 vx vy vz) =
     (px - vx) * (px - vx) + (py - vy) * (py - vy) + (pz - vz) * (pz - vz)"

definition distanceTo :: "Vector3 \<Rightarrow> Vector3 \<Rightarrow> real" where
  "distanceTo p v = sqrt (distanceToSquared p v)"

fun multiplyScalar :: "Vector3 \<Rightarrow> real \<Rightarrow> Vector3" where
  "multiplyScalar (Vector3 px py pz) k = Vector3 (px * k) (py * k) (pz * k)"

definition TRIGGER_REGION_RADIUS :: real where
  "TRIGGER_REGION_RADIUS = 5"

definition TIME_SCALE_FACTOR :: real where
  "TIME_SCALE_FACTOR = 0.75"

subsection \<open>The JavaScript Map\<close>

text \<open>
  A JavaScript \<open>Map\<close> keeps its entries in insertion order, and \<open>forEach\<close> visits them in
  that order. Setting a key that is already present replaces the value where the key
  stands; a new key goes to the end. \<open>new Map(entries)\<close> sets the entries one by one.
\<close>

fun Map_set :: "('k \<times> 'v) list \<Rightarrow> 'k \<Rightarrow> 'v \<Rightarrow> ('k \<times> 'v) list" where
  "Map_set [] k v = [(k, v)]"
| "Map_set ((k', v') # m) k v =
     (if k' = k then (k', v) # m else (k', v') # Map_set m k v)"

definition Map_new :: "('k \<times> 'v) list \<Rightarrow> ('k \<times> 'v) list" where
  "Map_new entries = foldl (\<lambda>m (k, v). Map_set m k v) [] entries"

subsection \<open>Clips, actions and the mixer\<close>

text \<open>
  Modelled from the spec: animation clips, actions and the animation mixer belong to the
  rendering library (\<open>libs/three.module.js\<close>), which is not among the sources. The spec
  describes a clip as a named, time-bounded animation sequence, an action as playing or
  paused with an elapsed time and a direction, and the mixer as the per-model component
  that advances the active clips each frame. An action carries the fields the sources
  read and write. \<open>isScheduled\<close> records that \<open>play()\<close> has been called on the action;
  the sources never call \<open>stop()\<close>. Every \<open>play()\<close> of the sources follows
  \<open>setLoop(THREE.LoopOnce)\<close>, so every scheduled action plays once, and the loop mode is
  not a field.
\<close>

record AnimationClip =
  name :: string
  duration :: real

record AnimationAction =
  time :: real
  timeScale :: real
  paused :: bool
  enabled :: bool
  clampWhenFinished :: bool
  isScheduled :: bool

text \<open>
  Modelled from the spec: \<open>THREE.AnimationClip.findByName\<close> (library) returns the first
  clip of the array with the given name, and \<open>null\<close> (here \<open>None\<close>) when there is none.
\<close>

fun findByName :: "AnimationClip list \<Rightarrow> string \<Rightarrow> AnimationClip option" where
  "findByName [] clipName = None"
| "findByName (clip # clips) clipName =
     (if name clip = clipName then Some clip else findByName clips clipName)"

text \<open>
  Modelled from the spec: the library calls on an action. A new action starts at time 0,
  runs forward, and is neither paused nor scheduled. \<open>reset\<close> puts an action back to its
  start and makes it runnable again; \<open>play\<close> schedules it in the mixer.
\<close>

definition new_AnimationAction :: AnimationAction where
  "new_AnimationAction =
     \<lparr>time = 0, timeScale = 1, paused = False, enabled = True,
      clampWhenFinished = False, isScheduled = False\<rparr>"

definition reset :: "AnimationAction \<Rightarrow> AnimationAction" where
  "reset a = a\<lparr>paused := False, enabled := True, time := 0\<rparr>"

definition play :: "AnimationAction \<Rightarrow> AnimationAction" where
  "play a = a\<lparr>isScheduled := True\<rparr>"

text \<open>
  Modelled from the spec: one frame of a scheduled action that plays once (library). A
  paused or disabled action does not move. Otherwise the time advances by the frame's
  delta in the action's direction; on natural completion the time stays at the clip's
  end, reverse playback stops on reaching time zero, and the action is then paused when
  it is clamped and disabled when it is not.
\<close>

definition finish :: "AnimationAction \<Rightarrow> AnimationAction" where
  "finish a = (if clampWhenFinished a then a\<lparr>paused := True\<rparr> else a\<lparr>enabled := False\<rparr>)"

definition AnimationAction_update :: "real \<Rightarrow> AnimationClip \<Rightarrow> AnimationAction \<Rightarrow> AnimationAction" where
  "AnimationAction_update delta clip a =
     (if \<not> isScheduled a \<or> \<not> enabled a \<or> paused a \<or> delta * timeScale a = 0 then a
      else if duration clip \<le> time a + delta * timeScale a then finish (a\<lparr>time := duration clip\<rparr>)
      else if time a + delta * timeScale a < 0 then finish (a\<lparr>time := 0\<rparr>)
      else a\<lparr>time := time a + delta * timeScale a\<rparr>)"

text \<open>
  Modelled from the spec: the mixer (library) is the per-model component that advances
  the active clips each frame. It holds one action per clip: \<open>clipAction(clip)\<close> returns
  the same action whenever it is asked for the same clip. The mixer is therefore a
  function from clips to their actions, and a reference to an action (\<open>_currentAction\<close>)
  is the clip it belongs to. A clip that was never asked for has the new action. A frame
  updates every action. What the spec calls the current action is the reference an
  object keeps: it is overwritten when another clip starts, and the action it referred to
  stays with the mixer.
\<close>

type_synonym AnimationMixer = "AnimationClip \<Rightarrow> AnimationAction"

definition new_AnimationMixer :: AnimationMixer where
  "new_AnimationMixer = (\<lambda>clip. new_AnimationAction)"

definition AnimationMixer_update :: "real \<Rightarrow> AnimationMixer \<Rightarrow> AnimationMixer" where
  "AnimationMixer_update delta m = (\<lambda>clip. AnimationAction_update delta clip (m clip))"

text \<open>The fields both classes have: the loaded clips, the mixer and the current action.\<close>

record Playback =
  animations :: "AnimationClip list"
  mixer :: AnimationMixer
  currentAction :: "AnimationClip option"

datatype error = TypeError

datatype completion = Returns | Throws error

section \<open>The Pointer Proxy: CursorObject\<close>

text \<open>
  The record is the object after its model has been loaded (home.js binds the event
  handlers after both loads). \<open>position\<close> is \<open>this._model.position\<close>.
\<close>

record CursorObject = Playback +
  position :: Vector3
  pointLight :: Vector3
  currentClipDuration :: real
  trigger_centres :: "(string \<times> Vector3) list"

definition CursorObject_trigger_centres :: "AnimationNameConstants \<Rightarrow> (string \<times> Vector3) list" where
  "CursorObject_trigger_centres c =
     Map_new [(TOUCH c, Vector3 70 60 65),
              (SHOES c, Vector3 85 55 55),
              (HEAD c, Vector3 75 65 60),
              (LA c, Vector3 65 60 75)]"

text \<open>
  \<open>getModelAnimation\<close>: the callback of \<open>forEach\<close> assigns the local variable
  \<open>animation\<close> at every entry within the radius; the object is not written.
\<close>

definition CursorObject_getModelAnimation ::
    "AnimationNameConstants \<Rightarrow> CursorObject \<Rightarrow> string \<times> CursorObject" where
  "CursorObject_getModelAnimation c s =
     (foldl (\<lambda>animation (key, val).
               if distanceTo (position s) val \<le> TRIGGER_REGION_RADIUS then key else animation)
            (NONE c) (trigger_centres s),
      s)"

text \<open>
  The selector as the spec words it: the first trigger point, in insertion order, whose
  distance is within the radius, or "none".
\<close>

definition spec_getModelAnimation :: "AnimationNameConstants \<Rightarrow> CursorObject \<Rightarrow> string" where
  "spec_getModelAnimation c s =
     (case find (\<lambda>(key, val). distanceTo (position s) val \<le> TRIGGER_REGION_RADIUS)
                (trigger_centres s) of
        None \<Rightarrow> NONE c
      | Some (key, val) \<Rightarrow> key)"

text \<open>
  \<open>setCursorPosition\<close>: the ray casting through the camera onto the plane is the
  library's; \<open>intersectPoint\<close> is the vector it leaves in the variable of that name. The
  source copies twice that vector into the model's position.
\<close>

definition CursorObject_setCursorPosition :: "Vector3 \<Rightarrow> CursorObject \<Rightarrow> CursorObject" where
  "CursorObject_setCursorPosition intersectPoint s =
     s\<lparr>position := multiplyScalar intersectPoint 2\<rparr>"

text \<open>
  \<open>_isActionPlayable\<close> of the Pointer Proxy writes: it resets the current action when
  that action stands at the recorded clip duration.
\<close>

definition CursorObject_isActionPlayable :: "CursorObject \<Rightarrow> bool \<times> CursorObject" where
  "CursorObject_isActionPlayable s =
     (case currentAction s of
        None \<Rightarrow> (True, s)
      | Some r \<Rightarrow>
          if time (mixer s r) = currentClipDuration s
          then (True, s\<lparr>mixer := (mixer s)(r := reset (mixer s r))\<rparr>)
          else (False, s))"

text \<open>
  \<open>playAnimation\<close> of the Pointer Proxy. The name test comes first and \<open>&&\<close> evaluates
  \<open>_isActionPlayable()\<close> only when it holds. When no clip has the name, \<open>clip\<close> is \<open>null\<close>
  and reading \<open>clip.duration\<close> throws a TypeError before any field is assigned.
\<close>

definition CursorObject_playAnimation ::
    "AnimationNameConstants \<Rightarrow> string \<Rightarrow> CursorObject \<Rightarrow> completion \<times> CursorObject" where
  "CursorObject_playAnimation c clipName s =
     (if clipName = LA c \<or> clipName = SCROLL c \<or> clipName = CLICK c \<or> clipName = TOUCH c then
        (let (shouldPlay, s1) = CursorObject_isActionPlayable s in
         if shouldPlay then
           (let clipName1 = (if clipName = TOUCH c then INDEX_FINGER c else clipName) in
            case findByName (animations s1) clipName1 of
              None \<Rightarrow> (Throws TypeError, s1)
            | Some clip \<Rightarrow>
                (Returns,
                 s1\<lparr>currentClipDuration := duration clip,
                    currentAction := Some clip,
                    mixer := (mixer s1)(clip := play ((mixer s1 clip)\<lparr>timeScale := 1\<rparr>))\<rparr>))
         else (Returns, s1))
      else (Returns, s))"

text \<open>
  \<open>animate\<close>: \<open>elapsed\<close> is what \<open>this._clock.getDelta()\<close> returns, the seconds since the
  previous frame.
\<close>

definition CursorObject_animate :: "real \<Rightarrow> CursorObject \<Rightarrow> CursorObject" where
  "CursorObject_animate elapsed s =
     s\<lparr>mixer := AnimationMixer_update (elapsed * TIME_SCALE_FACTOR) (mixer s),
       pointLight := (case position s of Vector3 px py pz \<Rightarrow> Vector3 (px - 500) (py + 1000) (pz - 500))\<rparr>"

section \<open>The Scene Host: ModelDisplayer\<close>

text \<open>
  The record is the object after its model has been loaded; the camera, the renderer and
  the scene are the library's and no operation below reads them.
\<close>

record ModelDisplayer = Playback +
  center :: Vector3

definition ModelDisplayer_isActionPlayable :: "ModelDisplayer \<Rightarrow> bool" where
  "ModelDisplayer_isActionPlayable s =
     (case currentAction s of
        None \<Rightarrow> True
      | Some r \<Rightarrow> if paused (mixer s r) \<or> time (mixer s r) = 0 then True else False)"

text \<open>
  \<open>playAnimation\<close> of the Scene Host. When no clip has the name, \<open>findByName\<close> gives
  \<open>null\<close>, the mixer's \<open>clipAction(null)\<close> gives \<open>null\<close>, which is assigned to
  \<open>_currentAction\<close>, and the call of \<open>setLoop\<close> on it throws a TypeError.
\<close>

definition ModelDisplayer_playAnimation ::
    "string \<Rightarrow> ModelDisplayer \<Rightarrow> completion \<times> ModelDisplayer" where
  "ModelDisplayer_playAnimation clipName s =
     (if ModelDisplayer_isActionPlayable s then
        (let isClipAtStartingPoint =
               (case currentAction s of
                  None \<Rightarrow> True
                | Some r \<Rightarrow> if time (mixer s r) = 0 then True else False) in
         if isClipAtStartingPoint then
           (case findByName (animations s) clipName of
              None \<Rightarrow> (Throws TypeError, s\<lparr>currentAction := None\<rparr>)
            | Some clip \<Rightarrow>
                (Returns,
                 s\<lparr>currentAction := Some clip,
                   mixer := (mixer s)(clip :=
                     play ((mixer s clip)\<lparr>clampWhenFinished := True, paused := False,
                                           enabled := True, timeScale := 1\<rparr>))\<rparr>))
         else (Returns, s))
      else (Returns, s))"

text \<open>
  \<open>revertToOriginalPosition\<close>: the same action is played again, backwards. Writing a
  field of a \<open>null\<close> action would throw; the flag excludes it.
\<close>

definition ModelDisplayer_revertToOriginalPosition ::
    "ModelDisplayer \<Rightarrow> completion \<times> ModelDisplayer" where
  "ModelDisplayer_revertToOriginalPosition s =
     (if ModelDisplayer_isActionPlayable s then
        (let isClipAtEndPoint =
               (case currentAction s of
                  None \<Rightarrow> False
                | Some r \<Rightarrow> if time (mixer s r) = 0 then False else True) in
         if isClipAtEndPoint then
           (case currentAction s of
              None \<Rightarrow> (Throws TypeError, s)
            | Some r \<Rightarrow>
                (Returns,
                 s\<lparr>mixer := (mixer s)(r :=
                     play ((mixer s r)\<lparr>timeScale := - 1, clampWhenFinished := False,
                                        paused := False\<rparr>))\<rparr>))
         else (Returns, s))
      else (Returns, s))"

definition ModelDisplayer_animate :: "real \<Rightarrow> ModelDisplayer \<Rightarrow> ModelDisplayer" where
  "ModelDisplayer_animate elapsed s =
     s\<lparr>mixer := AnimationMixer_update (elapsed * TIME_SCALE_FACTOR) (mixer s)\<rparr>"

section \<open>The Input Loop: home.js\<close>

text \<open>
  The handlers of \<open>home.js\<close>, on the pair of the two objects. The mouse-move handler
  moves the Pointer Proxy, asks it for the animation and passes the answer to both
  objects; an exception leaves the handler, so the calls after a throwing one are not
  made. (The handler also reads the trigger regions and the activation region of the
  Scene Host and does not use them.) The click and the scroll handlers ask the Pointer
  Proxy for the CLICK and the SCROLL clip. Each frame animates both objects.
\<close>

definition home_mousemove ::
    "AnimationNameConstants \<Rightarrow> Vector3 \<Rightarrow> ModelDisplayer \<times> CursorObject \<Rightarrow>
       completion \<times> ModelDisplayer \<times> CursorObject" where
  "home_mousemove c intersectPoint app =
     (let (modelDisplayer, cursorObject) = app;
          cursorObject1 = CursorObject_setCursorPosition intersectPoint cursorObject;
          (animationToBePlayed, cursorObject2) = CursorObject_getModelAnimation c cursorObject1
      in if animationToBePlayed = NONE c then
           (let (r, modelDisplayer1) = ModelDisplayer_revertToOriginalPosition modelDisplayer
            in (r, modelDisplayer1, cursorObject2))
         else
           (case ModelDisplayer_playAnimation animationToBePlayed modelDisplayer of
              (Throws e, modelDisplayer1) \<Rightarrow> (Throws e, modelDisplayer1, cursorObject2)
            | (Returns, modelDisplayer1) \<Rightarrow>
                (let (r, cursorObject3) =
                       CursorObject_playAnimation c animationToBePlayed cursorObject2
                 in (r, modelDisplayer1, cursorObject3))))"

definition home_click ::
    "AnimationNameConstants \<Rightarrow> ModelDisplayer \<times> CursorObject \<Rightarrow>
       completion \<times> ModelDisplayer \<times> CursorObject" where
  "home_click c app =
     (let (modelDisplayer, cursorObject) = app;
          (r, cursorObject1) = CursorObject_playAnimation c (CLICK c) cursorObject
      in (r, modelDisplayer, cursorObject1))"

definition home_scroll ::
    "AnimationNameConstants \<Rightarrow> ModelDisplayer \<times> CursorObject \<Rightarrow>
       completion \<times> ModelDisplayer \<times> CursorObject" where
  "home_scroll c app =
     (let (modelDisplayer, cursorObject) = app;
          (r, cursorObject1) = CursorObject_playAnimation c (SCROLL c) cursorObject
      in (r, modelDisplayer, cursorObject1))"

definition home_animate ::
    "real \<Rightarrow> ModelDisplayer \<times> CursorObject \<Rightarrow> ModelDisplayer \<times> CursorObject" where
  "home_animate elapsed app =
     (let (modelDisplayer, cursorObject) = app
      in (ModelDisplayer_animate elapsed modelDisplayer, CursorObject_animate elapsed cursorObject))"

text \<open>
  The page after a list of events: an exception ends its handler only, the objects stay
  as the handler left them.
\<close>

datatype event = Mousemove Vector3 | Click | Scroll | Frame real

fun home_event ::
    "AnimationNameConstants \<Rightarrow> ModelDisplayer \<times> CursorObject \<Rightarrow> event \<Rightarrow>
       ModelDisplayer \<times> CursorObject" where
  "home_event c app (Mousemove intersectPoint) = snd (home_mousemove c intersectPoint app)"
| "home_event c app Click = snd (home_click c app)"
| "home_event c app Scroll = snd (home_scroll c app)"
| "home_event c app (Frame elapsed) = home_animate elapsed app"

definition home_events ::
    "AnimationNameConstants \<Rightarrow> event list \<Rightarrow> ModelDisplayer \<times> CursorObject \<Rightarrow>
       ModelDisplayer \<times> CursorObject" where
  "home_events c events app = foldl (home_event c) app events"

section \<open>Loading the model assets\<close>

text \<open>
  Modelled from the spec: the asset loader (\<open>THREE.GLTFLoader\<close>) is the library's. It is
  a parameter: a function from the path to either the error it passes to the error
  callback or the asset it passes to the load callback. Of an asset, the operations use
  the position of its scene, the centre of the scene's bounding box as the library
  computes it after the scaling, and the clips. The promise a load returns is settled by
  the callback the loader runs; \<open>console.error\<close> appends to the list of logged values.
\<close>

record GLTF =
  scenePosition :: Vector3
  sceneCentre :: Vector3
  gltfAnimations :: "AnimationClip list"


fun recentre :: "Vector3 \<Rightarrow> Vector3 \<Rightarrow> Vector3" where
  "recentre (Vector3 px py pz) (Vector3 cx cy cz) =
     Vector3 (px + (px - cx)) (py + (py - cy)) (pz + (pz - cz))"

text \<open>The object the constructor and the load callback build from an asset.\<close>

definition CursorObject_loaded :: "AnimationNameConstants \<Rightarrow> GLTF \<Rightarrow> CursorObject" where
  "CursorObject_loaded c gltf =
     \<lparr>animations = gltfAnimations gltf,
      mixer = new_AnimationMixer,
      currentAction = None,
      position = recentre (scenePosition gltf) (sceneCentre gltf),
      pointLight = Vector3 0 0 0,
      currentClipDuration = 0,
      trigger_centres = CursorObject_trigger_centres c\<rparr>"


definition ModelDisplayer_loaded :: "GLTF \<Rightarrow> ModelDisplayer" where
  "ModelDisplayer_loaded gltf =
     \<lparr>animations = gltfAnimations gltf,
      mixer = new_AnimationMixer,
      currentAction = None,
      center = sceneCentre gltf\<rparr>"



section \<open>Calls on an object that may not be loaded\<close>





section \<open>Reachable playback states\<close>

text \<open>
  The states an object passes through after its load, under any sequence of calls of its
  operations (with any clip name, any intersection point and any frame time).
\<close>

inductive ModelDisplayer_reachable :: "GLTF \<Rightarrow> ModelDisplayer \<Rightarrow> bool" for gltf where
  MD_loaded: "ModelDisplayer_reachable gltf (ModelDisplayer_loaded gltf)"
| MD_playAnimation: "ModelDisplayer_reachable gltf s \<Longrightarrow>
     ModelDisplayer_reachable gltf (snd (ModelDisplayer_playAnimation clipName s))"
| MD_revertToOriginalPosition: "ModelDisplayer_reachable gltf s \<Longrightarrow>
     ModelDisplayer_reachable gltf (snd (ModelDisplayer_revertToOriginalPosition s))"
| MD_animate: "ModelDisplayer_reachable gltf s \<Longrightarrow>
     ModelDisplayer_reachable gltf (ModelDisplayer_animate elapsed s)"

inductive CursorObject_reachable :: "AnimationNameConstants \<Rightarrow> GLTF \<Rightarrow> CursorObject \<Rightarrow> bool"
  for c gltf where
  CO_loaded: "CursorObject_reachable c gltf (CursorObject_loaded c gltf)"
| CO_setCursorPosition: "CursorObject_reachable c gltf s \<Longrightarrow>
     CursorObject_reachable c gltf (CursorObject_setCursorPosition intersectPoint s)"
| CO_getModelAnimation: "CursorObject_reachable c gltf s \<Longrightarrow>
     CursorObject_reachable c gltf (snd (CursorObject_getModelAnimation c s))"
| CO_playAnimation: "CursorObject_reachable c gltf s \<Longrightarrow>
     CursorObject_reachable c gltf (snd (CursorObject_playAnimation c clipName s))"
| CO_animate: "CursorObject_reachable c gltf s \<Longrightarrow>
     CursorObject_reachable c gltf (CursorObject_animate elapsed s)"

text \<open>
  An action is playing when it is scheduled in the mixer, enabled and not paused: these
  are the actions a frame advances. A clip is mid-clip when the time of its action is
  strictly between 0 and the clip's duration.
\<close>

definition isPlaying :: "AnimationAction \<Rightarrow> bool" where
  "isPlaying a = (isScheduled a \<and> enabled a \<and> \<not> paused a)"

definition midClip :: "'a Playback_scheme \<Rightarrow> AnimationClip \<Rightarrow> bool" where
  "midClip s r = (0 < time (mixer s r) \<and> time (mixer s r) < duration r)"

text \<open>
  The invariant as the spec states it: at most one clip of the model is playing. Only
  clips of the loaded asset are ever handed to the mixer, so the clips that are playing
  are counted among them.
\<close>

definition playingClips :: "'a Playback_scheme \<Rightarrow> AnimationClip list" where
  "playingClips s = filter (\<lambda>r. isPlaying (mixer s r)) (remdups (animations s))"

definition atMostOnePlaying :: "'a Playback_scheme \<Rightarrow> bool" where
  "atMostOnePlaying s = (length (playingClips s) \<le> 1)"

section \<open>Example assets\<close>

text \<open>
  The asset files (\<open>hand.glb\<close>, \<open>char_2.glb\<close>) are not among the sources. The examples
  below use three assets placed at the origin: a hand with the four clips the Pointer
  Proxy asks for, a character with the four clips of the trigger points, and a model
  without clips.
\<close>

definition hand_glb :: GLTF where
  "hand_glb =
     \<lparr>scenePosition = Vector3 0 0 0, sceneCentre = Vector3 0 0 0,
      gltfAnimations =
        [\<lparr>name = ''LA'', duration = 1\<rparr>, \<lparr>name = ''SCROLL'', duration = 1\<rparr>,
         \<lparr>name = ''CLICK'', duration = 1\<rparr>, \<lparr>name = ''INDEX_FINGER'', duration = 1\<rparr>]\<rparr>"

definition char_2_glb :: GLTF where
  "char_2_glb =
     \<lparr>scenePosition = Vector3 0 0 0, sceneCentre = Vector3 0 0 0,
      gltfAnimations =
        [\<lparr>name = ''TOUCH'', duration = 2\<rparr>, \<lparr>name = ''SHOES'', duration = 2\<rparr>,
         \<lparr>name = ''HEAD'', duration = 2\<rparr>, \<lparr>name = ''LA'', duration = 2\<rparr>]\<rparr>"


text \<open>A hand whose CLICK clip lasts three times as long as its other clips.\<close>

definition hand_slow_click_glb :: GLTF where
  "hand_slow_click_glb =
     \<lparr>scenePosition = Vector3 0 0 0, sceneCentre = Vector3 0 0 0,
      gltfAnimations =
        [\<lparr>name = ''LA'', duration = 1\<rparr>, \<lparr>name = ''SCROLL'', duration = 1\<rparr>,
         \<lparr>name = ''CLICK'', duration = 3\<rparr>, \<lparr>name = ''INDEX_FINGER'', duration = 1\<rparr>]\<rparr>"

text \<open>The Pointer Proxy of the example, moved to a position (twice the intersection point).\<close>

definition handAt :: "Vector3 \<Rightarrow> CursorObject" where
  "handAt intersectPoint =
     CursorObject_setCursorPosition intersectPoint (CursorObject_loaded animationConstants hand_glb)"

text \<open>
  Example states. The Scene Host after two requests in a row and one frame, and the
  Pointer Proxy after a click whose clip has run to its end, a scroll, and one frame.
\<close>

definition hostHeadThenTouch :: ModelDisplayer where
  "hostHeadThenTouch =
     ModelDisplayer_animate 0.1
       (snd (ModelDisplayer_playAnimation ''TOUCH''
          (snd (ModelDisplayer_playAnimation ''HEAD'' (ModelDisplayer_loaded char_2_glb)))))"

definition handClickThenScroll :: CursorObject where
  "handClickThenScroll =
     CursorObject_animate 0.4
       (snd (CursorObject_playAnimation animationConstants ''SCROLL''
          (CursorObject_animate 2
             (snd (CursorObject_playAnimation animationConstants ''CLICK''
                (CursorObject_loaded animationConstants hand_glb))))))"

text \<open>
  The Pointer Proxy with the slow CLICK after a click whose clip has run to its end, a
  scroll, and a frame that ends the scroll's clip. The Pointer Proxy after a TOUCH
  request, a frame that ends its clip, a click, and a frame that ends both clips.
\<close>

definition handSlowClickThenScroll :: CursorObject where
  "handSlowClickThenScroll =
     CursorObject_animate 2
       (snd (CursorObject_playAnimation animationConstants ''SCROLL''
          (CursorObject_animate 4
             (snd (CursorObject_playAnimation animationConstants ''CLICK''
                (CursorObject_loaded animationConstants hand_slow_click_glb))))))"

definition handTouchThenClick :: CursorObject where
  "handTouchThenClick =
     CursorObject_animate 2
       (snd (CursorObject_playAnimation animationConstants ''CLICK''
          (CursorObject_animate 2
             (snd (CursorObject_playAnimation animationConstants ''TOUCH''
                (CursorObject_loaded animationConstants hand_glb))))))"

text \<open>The two Pointer Proxies above after one more request: a scroll, and a TOUCH request.\<close>

definition handScrollAgain :: CursorObject where
  "handScrollAgain =
     snd (CursorObject_playAnimation animationConstants ''SCROLL'' handSlowClickThenScroll)"

definition handTouchAgain :: CursorObject where
  "handTouchAgain =
     snd (CursorObject_playAnimation animationConstants ''TOUCH'' handTouchThenClick)"

text \<open>Both objects right after a request for the clip LA of the same asset.\<close>

definition hostPlayingLA :: ModelDisplayer where
  "hostPlayingLA = snd (ModelDisplayer_playAnimation ''LA'' (ModelDisplayer_loaded hand_glb))"

definition handPlayingLA :: CursorObject where
  "handPlayingLA =
     snd (CursorObject_playAnimation animationConstants ''LA''
            (CursorObject_loaded animationConstants hand_glb))"

section \<open>Evaluation of the examples\<close>

lemmas example_defs =
  hand_glb_def char_2_glb_def animationConstants_def CursorObject_loaded_def
  ModelDisplayer_loaded_def new_AnimationMixer_def new_AnimationAction_def

lemmas operation_defs =
  CursorObject_playAnimation_def CursorObject_isActionPlayable_def
  ModelDisplayer_playAnimation_def ModelDisplayer_isActionPlayable_def
  ModelDisplayer_revertToOriginalPosition_def CursorObject_animate_def ModelDisplayer_animate_def
  AnimationMixer_update_def AnimationAction_update_def finish_def play_def reset_def
  TIME_SCALE_FACTOR_def

section \<open>The animation selector\<close>

lemma within_radius_iff:
  "(distanceTo p v \<le> TRIGGER_REGION_RADIUS) = (distanceToSquared p v \<le> 25)"
proof -
  have "sqrt 25 = (5::real)" by (simp add: real_sqrt_eq_iff [symmetric] )
  then have "(sqrt (distanceToSquared p v) \<le> 5) = (sqrt (distanceToSquared p v) \<le> sqrt 25)" by simp
  also have "\<dots> = (distanceToSquared p v \<le> 25)" by (rule real_sqrt_le_iff)
  finally show ?thesis by (simp add: distanceTo_def TRIGGER_REGION_RADIUS_def)
qed

lemma forEach_last_match:
  "foldl (\<lambda>animation (key, val). if P val then key else animation) init m =
     (case filter (\<lambda>(key, val). P val) m of [] \<Rightarrow> init | e # es \<Rightarrow> fst (last (e # es)))"
proof (induction m arbitrary: init)
  case Nil
  show ?case by simp
next
  case (Cons e m)
  obtain key val where e: "e = (key, val)" by (cases e)
  show ?case
    by (simp add: e Cons.IH split: list.splits)
qed

lemma forEach_no_match:
  "\<forall>(key, val) \<in> set m. \<not> P val \<Longrightarrow>
   foldl (\<lambda>animation (key, val). if P val then key else animation) init m = init"
  by (induction m arbitrary: init) auto

lemma trigger_centres_distinct:
  "distinct [TOUCH c, SHOES c, HEAD c, LA c] \<Longrightarrow>
   CursorObject_trigger_centres c =
     [(TOUCH c, Vector3 70 60 65), (SHOES c, Vector3 85 55 55),
      (HEAD c, Vector3 75 65 60), (LA c, Vector3 65 60 75)]"
  by (auto simp add: CursorObject_trigger_centres_def Map_new_def)

lemma handAt_fields:
  "position (handAt p) = multiplyScalar p 2"
  "trigger_centres (handAt p) =
     [(''TOUCH'', Vector3 70 60 65), (''SHOES'', Vector3 85 55 55),
      (''HEAD'', Vector3 75 65 60), (''LA'', Vector3 65 60 75)]"
  by (simp_all add: handAt_def CursorObject_setCursorPosition_def CursorObject_loaded_def
        trigger_centres_distinct animationConstants_def)

text \<open>
  Claim C1. The spec has the selector return the first trigger point within the radius.
  The callback of \<open>forEach\<close> overwrites the local variable at every match, so the
  selector returns the last trigger point, in insertion order, whose Euclidean distance
  from the position is within the radius, and "none" when there is no such point.
\<close>

theorem getModelAnimation_last_match:
  "fst (CursorObject_getModelAnimation c s) =
     (case filter (\<lambda>(key, val). distanceTo (position s) val \<le> TRIGGER_REGION_RADIUS)
                  (trigger_centres s) of
        [] \<Rightarrow> NONE c
      | e # es \<Rightarrow> fst (last (e # es)))"
  by (simp add: CursorObject_getModelAnimation_def forEach_last_match)

theorem getModelAnimation_last_match_witness:
  "fst (CursorObject_getModelAnimation animationConstants (handAt (Vector3 36.5 31.5 32))) = ''HEAD''"
  using getModelAnimation_last_match [of animationConstants "handAt (Vector3 36.5 31.5 32)"]
  by (simp add: handAt_fields within_radius_iff animationConstants_def)

text \<open>
  Claim C1, as the spec states it, fails at the position (73, 63, 64), which lies on the
  plane of the pointer positions: it is within the radius of TOUCH at (70, 60, 65), the
  first entry, and of HEAD at (75, 65, 60), the third. The source returns HEAD.
\<close>

theorem getModelAnimation_first_match_counterexample:
  "fst (CursorObject_getModelAnimation animationConstants (handAt (Vector3 36.5 31.5 32))) = ''HEAD'' \<and>
   spec_getModelAnimation animationConstants (handAt (Vector3 36.5 31.5 32)) = ''TOUCH''"
  by (simp add: CursorObject_getModelAnimation_def spec_getModelAnimation_def handAt_fields
        within_radius_iff animationConstants_def)

lemma Map_set_values: "snd ` set (Map_set m k v) \<subseteq> insert v (snd ` set m)"
proof (induction m)
  case Nil
  show ?case by simp
next
  case (Cons e m)
  obtain k' v' where e: "e = (k', v')" by (cases e)
  show ?case
    using Cons.IH by (auto simp add: e rev_image_eqI)
qed

lemma foldl_Map_set_values:
  "snd ` set (foldl (\<lambda>m (k, v). Map_set m k v) m0 entries) \<subseteq> snd ` set m0 \<union> snd ` set entries"
proof (induction entries arbitrary: m0)
  case Nil
  show ?case by simp
next
  case (Cons e entries)
  obtain k v where e: "e = (k, v)" by (cases e)
  have "snd ` set (foldl (\<lambda>m (k, v). Map_set m k v) (Map_set m0 k v) entries)
          \<subseteq> snd ` set (Map_set m0 k v) \<union> snd ` set entries"
    by (rule Cons.IH)
  also have "\<dots> \<subseteq> insert v (snd ` set m0) \<union> snd ` set entries"
    using Map_set_values [of m0 k v] by blast
  finally show ?case by (simp add: e)
qed

lemma Map_new_values: "snd ` set (Map_new entries) \<subseteq> snd ` set entries"
  using foldl_Map_set_values [of "[]" entries] by (simp add: Map_new_def)

lemma trigger_centres_values:
  "snd ` set (CursorObject_trigger_centres c) \<subseteq>
     {Vector3 70 60 65, Vector3 85 55 55, Vector3 75 65 60, Vector3 65 60 75}"
  using Map_new_values [of "[(TOUCH c, Vector3 70 60 65), (SHOES c, Vector3 85 55 55),
      (HEAD c, Vector3 75 65 60), (LA c, Vector3 65 60 75)]"]
  by (simp add: CursorObject_trigger_centres_def)

text \<open>
  Claim C6. When every trigger point of the object is farther from the position than the
  trigger radius, the selector returns the "none" name; so it does, under any names,
  when the position is farther than the radius from each of the four trigger points of
  the constructor.
\<close>

theorem getModelAnimation_none_when_far:
  "((\<forall>(key, val) \<in> set (trigger_centres s).
       TRIGGER_REGION_RADIUS < distanceTo (position s) val) \<longrightarrow>
      fst (CursorObject_getModelAnimation c s) = NONE c) \<and>
   (trigger_centres s = CursorObject_trigger_centres c \<and>
    (\<forall>val \<in> {Vector3 70 60 65, Vector3 85 55 55, Vector3 75 65 60, Vector3 65 60 75}.
       TRIGGER_REGION_RADIUS < distanceTo (position s) val) \<longrightarrow>
      fst (CursorObject_getModelAnimation c s) = NONE c)"
proof -
  have far: "fst (CursorObject_getModelAnimation c s) = NONE c"
    if "\<forall>(key, val) \<in> set (trigger_centres s).
          TRIGGER_REGION_RADIUS < distanceTo (position s) val"
  proof -
    from that
    have "\<forall>(key, val) \<in> set (trigger_centres s).
            \<not> distanceTo (position s) val \<le> TRIGGER_REGION_RADIUS"
      by auto
    then show ?thesis
      unfolding CursorObject_getModelAnimation_def fst_conv
      by (rule forEach_no_match)
  qed
  have "\<forall>(key, val) \<in> set (trigger_centres s).
          TRIGGER_REGION_RADIUS < distanceTo (position s) val"
    if "trigger_centres s = CursorObject_trigger_centres c"
      and "\<forall>val \<in> {Vector3 70 60 65, Vector3 85 55 55, Vector3 75 65 60, Vector3 65 60 75}.
             TRIGGER_REGION_RADIUS < distanceTo (position s) val"
    using that trigger_centres_values [of c] by (auto simp del: insert_iff) 
  with far show ?thesis by blast
qed

lemma beyond_radius_iff:
  "(TRIGGER_REGION_RADIUS < distanceTo p v) = (25 < distanceToSquared p v)"
  using within_radius_iff [of p v] by auto

theorem getModelAnimation_none_when_far_witness:
  "fst (CursorObject_getModelAnimation animationConstants (handAt (Vector3 0 0 0))) = ''none''"
  using getModelAnimation_none_when_far [of "handAt (Vector3 0 0 0)" animationConstants]
  by (simp add: handAt_fields beyond_radius_iff animationConstants_def)

text \<open>
  Claim C7. With the trigger points of the constructor under pairwise different names, a
  position equal to a trigger point's coordinate yields that point's name; the position
  (75, 65, 60) yields HEAD and the position (100, 100, 100) yields "none".
\<close>

theorem getModelAnimation_at_trigger_point:
  assumes "trigger_centres s = CursorObject_trigger_centres c"
    and "distinct [TOUCH c, SHOES c, HEAD c, LA c]"
  shows "((key, val) \<in> set (trigger_centres s) \<and> position s = val \<longrightarrow>
            fst (CursorObject_getModelAnimation c s) = key) \<and>
         (position s = Vector3 75 65 60 \<longrightarrow> fst (CursorObject_getModelAnimation c s) = HEAD c) \<and>
         (position s = Vector3 100 100 100 \<longrightarrow> fst (CursorObject_getModelAnimation c s) = NONE c)"
  using assms
  by (auto simp add: CursorObject_getModelAnimation_def trigger_centres_distinct within_radius_iff)

theorem getModelAnimation_at_trigger_point_witness:
  "fst (CursorObject_getModelAnimation animationConstants (handAt (Vector3 37.5 32.5 30))) = ''HEAD'' \<and>
   fst (CursorObject_getModelAnimation animationConstants (handAt (Vector3 50 50 50))) = ''none''"
  using getModelAnimation_at_trigger_point [of "handAt (Vector3 37.5 32.5 30)" animationConstants "''HEAD''" "Vector3 75 65 60"]
    getModelAnimation_at_trigger_point [of "handAt (Vector3 50 50 50)" animationConstants "''HEAD''" "Vector3 75 65 60"]
  by (simp add: handAt_fields trigger_centres_distinct animationConstants_def)

text \<open>
  Claim C10. The selector is a query: it returns the object as it was (position, trigger
  points, current action and mixer), and asking again gives the same name.
\<close>

theorem getModelAnimation_pure:
  "snd (CursorObject_getModelAnimation c s) = s \<and>
   position (snd (CursorObject_getModelAnimation c s)) = position s \<and>
   trigger_centres (snd (CursorObject_getModelAnimation c s)) = trigger_centres s \<and>
   currentAction (snd (CursorObject_getModelAnimation c s)) = currentAction s \<and>
   mixer (snd (CursorObject_getModelAnimation c s)) = mixer s \<and>
   fst (CursorObject_getModelAnimation c (snd (CursorObject_getModelAnimation c s))) =
     fst (CursorObject_getModelAnimation c s)"
  by (simp add: CursorObject_getModelAnimation_def)

theorem getModelAnimation_pure_witness:
  "snd (CursorObject_getModelAnimation animationConstants (handAt (Vector3 35 30 32.5))) =
     handAt (Vector3 35 30 32.5)"
  using getModelAnimation_pure [of animationConstants "handAt (Vector3 35 30 32.5)"]
  by simp

section \<open>Admission of a clip\<close>

text \<open>
  Claim C2. The spec has both classes admit a clip under the same condition. The Scene
  Host admits exactly when there is no current action, or the current action is paused
  or at time 0. The Pointer Proxy admits exactly when there is no
  current action, or the time of the current action equals the recorded clip duration;
  it then resets that action (time 0, not paused, enabled) and otherwise leaves the
  object as it was. On playback states with the same current action, time and paused
  flag, the two answers are equal exactly when the two conditions are equivalent; they
  are equal when there is no current action.
\<close>

theorem isActionPlayable_agreement:
  "(currentAction m = currentAction s \<and>
    (case currentAction s of
       None \<Rightarrow> True
     | Some r \<Rightarrow> time (mixer m r) = time (mixer s r) \<and> paused (mixer m r) = paused (mixer s r)) \<longrightarrow>
    (fst (CursorObject_isActionPlayable s) = ModelDisplayer_isActionPlayable m) =
      (case currentAction s of
         None \<Rightarrow> True
       | Some r \<Rightarrow> (paused (mixer s r) \<or> time (mixer s r) = 0) =
                   (time (mixer s r) = currentClipDuration s))) \<and>
   ModelDisplayer_isActionPlayable m =
     (case currentAction m of
        None \<Rightarrow> True
      | Some r \<Rightarrow> paused (mixer m r) \<or> time (mixer m r) = 0) \<and>
   fst (CursorObject_isActionPlayable s) =
     (case currentAction s of
        None \<Rightarrow> True
      | Some r \<Rightarrow> time (mixer s r) = currentClipDuration s) \<and>
   snd (CursorObject_isActionPlayable s) =
     (case currentAction s of
        None \<Rightarrow> s
      | Some r \<Rightarrow>
          if time (mixer s r) = currentClipDuration s
          then s\<lparr>mixer := (mixer s)(r := (mixer s r)\<lparr>paused := False, enabled := True, time := 0\<rparr>)\<rparr>
          else s)"
  by (auto simp add: CursorObject_isActionPlayable_def ModelDisplayer_isActionPlayable_def reset_def
        split: option.splits)

theorem isActionPlayable_agreement_witness:
  "(fst (CursorObject_isActionPlayable handPlayingLA) =
    ModelDisplayer_isActionPlayable hostPlayingLA) = False \<and>
   ModelDisplayer_isActionPlayable hostPlayingLA = True \<and>
   fst (CursorObject_isActionPlayable handPlayingLA) = False \<and>
   snd (CursorObject_isActionPlayable handPlayingLA) = handPlayingLA \<and>
   time (mixer (CursorObject_animate 2 handPlayingLA) \<lparr>name = ''LA'', duration = 1\<rparr>) = 1 \<and>
   enabled (mixer (CursorObject_animate 2 handPlayingLA) \<lparr>name = ''LA'', duration = 1\<rparr>) = False \<and>
   fst (CursorObject_isActionPlayable (CursorObject_animate 2 handPlayingLA)) = True \<and>
   time (mixer (snd (CursorObject_isActionPlayable (CursorObject_animate 2 handPlayingLA)))
           \<lparr>name = ''LA'', duration = 1\<rparr>) = 0 \<and>
   enabled (mixer (snd (CursorObject_isActionPlayable (CursorObject_animate 2 handPlayingLA)))
           \<lparr>name = ''LA'', duration = 1\<rparr>) = True"
proof -
  let ?done = "CursorObject_animate 2 handPlayingLA"
  have playing: "currentAction handPlayingLA = Some \<lparr>name = ''LA'', duration = 1\<rparr>"
    "currentAction hostPlayingLA = Some \<lparr>name = ''LA'', duration = 1\<rparr>"
    "time (mixer handPlayingLA \<lparr>name = ''LA'', duration = 1\<rparr>) = 0"
    "time (mixer hostPlayingLA \<lparr>name = ''LA'', duration = 1\<rparr>) = 0"
    "paused (mixer handPlayingLA \<lparr>name = ''LA'', duration = 1\<rparr>) = False"
    "paused (mixer hostPlayingLA \<lparr>name = ''LA'', duration = 1\<rparr>) = False"
    "currentClipDuration handPlayingLA = 1"
    by (simp_all add: hostPlayingLA_def handPlayingLA_def operation_defs example_defs)
  have finished: "currentAction ?done = Some \<lparr>name = ''LA'', duration = 1\<rparr>"
    "time (mixer ?done \<lparr>name = ''LA'', duration = 1\<rparr>) = 1"
    "enabled (mixer ?done \<lparr>name = ''LA'', duration = 1\<rparr>) = False"
    "currentClipDuration ?done = 1"
    by (simp_all add: handPlayingLA_def operation_defs example_defs)
  show ?thesis
    using isActionPlayable_agreement [of hostPlayingLA handPlayingLA]
      isActionPlayable_agreement [of hostPlayingLA ?done]
    by (simp add: playing finished)
qed

text \<open>
  Claim C2, as the spec states it, fails right after a request for the same clip on both
  objects: the current action, its time 0, its paused flag and the clip duration 1 are
  the same, the Scene Host admits a new clip and the Pointer Proxy does not.
\<close>

theorem isActionPlayable_differ_counterexample:
  "currentAction hostPlayingLA = Some \<lparr>name = ''LA'', duration = 1\<rparr> \<and>
   currentAction handPlayingLA = Some \<lparr>name = ''LA'', duration = 1\<rparr> \<and>
   time (mixer hostPlayingLA \<lparr>name = ''LA'', duration = 1\<rparr>) = 0 \<and>
   time (mixer handPlayingLA \<lparr>name = ''LA'', duration = 1\<rparr>) = 0 \<and>
   paused (mixer hostPlayingLA \<lparr>name = ''LA'', duration = 1\<rparr>) = False \<and>
   paused (mixer handPlayingLA \<lparr>name = ''LA'', duration = 1\<rparr>) = False \<and>
   currentClipDuration handPlayingLA = 1 \<and>
   ModelDisplayer_isActionPlayable hostPlayingLA = True \<and>
   fst (CursorObject_isActionPlayable handPlayingLA) = False"
  by (simp add: hostPlayingLA_def handPlayingLA_def operation_defs example_defs)

section \<open>Requests that are ignored\<close>

text \<open>
  Claim C4. When the current action is not paused and its time is strictly between 0 and
  the clip duration (for the Pointer Proxy, the duration it recorded), playAnimation with
  any clip name returns the object unchanged, on the Scene Host and on the Pointer Proxy.
\<close>

theorem playAnimation_mid_playback_noop:
  "(currentAction m = Some r \<and> 0 < time (mixer m r) \<and> time (mixer m r) < duration r \<and>
      \<not> paused (mixer m r) \<longrightarrow>
      ModelDisplayer_playAnimation clipName m = (Returns, m)) \<and>
   (currentAction s = Some r' \<and> 0 < time (mixer s r') \<and>
      time (mixer s r') < currentClipDuration s \<and> \<not> paused (mixer s r') \<longrightarrow>
      CursorObject_playAnimation c clipName s = (Returns, s))"
  by (simp add: CursorObject_playAnimation_def CursorObject_isActionPlayable_def
        ModelDisplayer_playAnimation_def ModelDisplayer_isActionPlayable_def)

theorem playAnimation_mid_playback_noop_witness:
  "time (mixer (ModelDisplayer_animate 0.4 (snd (ModelDisplayer_playAnimation ''HEAD''
                 (ModelDisplayer_loaded char_2_glb)))) \<lparr>name = ''HEAD'', duration = 2\<rparr>) = 0.3 \<and>
   ModelDisplayer_playAnimation ''TOUCH''
     (ModelDisplayer_animate 0.4 (snd (ModelDisplayer_playAnimation ''HEAD''
        (ModelDisplayer_loaded char_2_glb)))) =
     (Returns, ModelDisplayer_animate 0.4 (snd (ModelDisplayer_playAnimation ''HEAD''
        (ModelDisplayer_loaded char_2_glb)))) \<and>
   time (mixer (CursorObject_animate 0.4 (snd (CursorObject_playAnimation animationConstants ''CLICK''
                 (CursorObject_loaded animationConstants hand_glb)))) \<lparr>name = ''CLICK'', duration = 1\<rparr>) = 0.3 \<and>
   CursorObject_playAnimation animationConstants ''SCROLL''
     (CursorObject_animate 0.4 (snd (CursorObject_playAnimation animationConstants ''CLICK''
        (CursorObject_loaded animationConstants hand_glb)))) =
     (Returns, CursorObject_animate 0.4 (snd (CursorObject_playAnimation animationConstants ''CLICK''
        (CursorObject_loaded animationConstants hand_glb))))"
proof -
  let ?m = "ModelDisplayer_animate 0.4 (snd (ModelDisplayer_playAnimation ''HEAD''
                 (ModelDisplayer_loaded char_2_glb)))"
  let ?s = "CursorObject_animate 0.4 (snd (CursorObject_playAnimation animationConstants ''CLICK''
                 (CursorObject_loaded animationConstants hand_glb)))"
  have m: "currentAction ?m = Some \<lparr>name = ''HEAD'', duration = 2\<rparr>"
    "time (mixer ?m \<lparr>name = ''HEAD'', duration = 2\<rparr>) = 0.3"
    "\<not> paused (mixer ?m \<lparr>name = ''HEAD'', duration = 2\<rparr>)"
    by (simp_all add: operation_defs example_defs)
  have s: "currentAction ?s = Some \<lparr>name = ''CLICK'', duration = 1\<rparr>"
    "time (mixer ?s \<lparr>name = ''CLICK'', duration = 1\<rparr>) = 0.3"
    "\<not> paused (mixer ?s \<lparr>name = ''CLICK'', duration = 1\<rparr>)"
    "currentClipDuration ?s = 1"
    by (simp_all add: operation_defs example_defs)
  show ?thesis
    using playAnimation_mid_playback_noop [where m = ?m and r = "\<lparr>name = ''HEAD'', duration = 2\<rparr>"
        and clipName = "''TOUCH''"]
      playAnimation_mid_playback_noop [where s = ?s and r' = "\<lparr>name = ''CLICK'', duration = 1\<rparr>"
        and c = animationConstants and clipName = "''SCROLL''"] m s
    by simp
qed

text \<open>
  Claim C5. When the Scene Host has no current action, or its current action is at time
  0, revertToOriginalPosition returns the object unchanged: no action is started.
\<close>

theorem revertToOriginalPosition_noop:
  "(case currentAction m of None \<Rightarrow> True | Some r \<Rightarrow> time (mixer m r) = 0) \<Longrightarrow>
   ModelDisplayer_revertToOriginalPosition m = (Returns, m)"
  by (simp add: ModelDisplayer_revertToOriginalPosition_def split: option.splits)

theorem revertToOriginalPosition_noop_witness:
  "ModelDisplayer_revertToOriginalPosition (ModelDisplayer_loaded char_2_glb) =
     (Returns, ModelDisplayer_loaded char_2_glb) \<and>
   ModelDisplayer_revertToOriginalPosition
     (snd (ModelDisplayer_playAnimation ''HEAD'' (ModelDisplayer_loaded char_2_glb))) =
     (Returns, snd (ModelDisplayer_playAnimation ''HEAD'' (ModelDisplayer_loaded char_2_glb)))"
  using revertToOriginalPosition_noop [of "ModelDisplayer_loaded char_2_glb"]
    revertToOriginalPosition_noop [of "snd (ModelDisplayer_playAnimation ''HEAD'' (ModelDisplayer_loaded char_2_glb))"]
  by (simp add: operation_defs example_defs)

section \<open>The clip names of the Pointer Proxy\<close>

lemma findByName_name: "findByName clips clipName = Some clip \<Longrightarrow> name clip = clipName"
  by (induction clips) (auto split: if_splits)

lemma CursorObject_isActionPlayable_animations:
  "animations (snd (CursorObject_isActionPlayable s)) = animations s"
  by (simp add: CursorObject_isActionPlayable_def split: option.splits)

text \<open>
  What holds of the clip names: any name other than LA, SCROLL, CLICK and TOUCH leaves
  the object unchanged, whatever the playback state, and an admitted TOUCH request looks
  up the clip named INDEX_FINGER, makes its action the current one and calls \<open>play()\<close>
  on it.
\<close>

lemma CursorObject_playAnimation_names:
  "(clipName \<notin> {LA c, SCROLL c, CLICK c, TOUCH c} \<longrightarrow>
      CursorObject_playAnimation c clipName s = (Returns, s)) \<and>
   (HEAD c \<notin> {LA c, SCROLL c, CLICK c, TOUCH c} \<longrightarrow>
      CursorObject_playAnimation c (HEAD c) s = (Returns, s)) \<and>
   (SHOES c \<notin> {LA c, SCROLL c, CLICK c, TOUCH c} \<longrightarrow>
      CursorObject_playAnimation c (SHOES c) s = (Returns, s)) \<and>
   (fst (CursorObject_isActionPlayable s) \<and>
    findByName (animations s) (INDEX_FINGER c) = Some clip \<longrightarrow>
      fst (CursorObject_playAnimation c (TOUCH c) s) = Returns \<and>
      currentAction (snd (CursorObject_playAnimation c (TOUCH c) s)) = Some clip \<and>
      name clip = INDEX_FINGER c \<and>
      isScheduled (mixer (snd (CursorObject_playAnimation c (TOUCH c) s)) clip) \<and>
      currentClipDuration (snd (CursorObject_playAnimation c (TOUCH c) s)) = duration clip)"
proof -
  have other: "CursorObject_playAnimation c n s = (Returns, s)"
    if "n \<notin> {LA c, SCROLL c, CLICK c, TOUCH c}" for n
    using that by (simp add: CursorObject_playAnimation_def)
  have touch: "fst (CursorObject_playAnimation c (TOUCH c) s) = Returns \<and>
      currentAction (snd (CursorObject_playAnimation c (TOUCH c) s)) = Some clip \<and>
      name clip = INDEX_FINGER c \<and>
      isScheduled (mixer (snd (CursorObject_playAnimation c (TOUCH c) s)) clip) \<and>
      currentClipDuration (snd (CursorObject_playAnimation c (TOUCH c) s)) = duration clip"
    if admitted: "fst (CursorObject_isActionPlayable s)"
      and found: "findByName (animations s) (INDEX_FINGER c) = Some clip"
  proof -
    obtain s1 where s1: "CursorObject_isActionPlayable s = (True, s1)"
      using admitted by (cases "CursorObject_isActionPlayable s") auto
    have "animations s1 = animations s"
      using CursorObject_isActionPlayable_animations [of s] s1 by simp
    then have "findByName (animations s1) (INDEX_FINGER c) = Some clip"
      using found by simp
    then show ?thesis
      using findByName_name [OF found]
      by (simp add: CursorObject_playAnimation_def s1 play_def)
  qed
  show ?thesis
    using other [of clipName] other [of "HEAD c"] other [of "SHOES c"] touch by blast
qed

section \<open>Invariants of the reachable states\<close>

lemma AnimationAction_update_paused:
  "paused (AnimationAction_update delta clip a) \<Longrightarrow>
   paused a \<or> time (AnimationAction_update delta clip a) = 0 \<or>
   time (AnimationAction_update delta clip a) = duration clip"
  by (auto simp add: AnimationAction_update_def finish_def split: if_splits)

lemma AnimationAction_update_paused_same:
  "paused a \<Longrightarrow> AnimationAction_update delta clip a = a"
  by (simp add: AnimationAction_update_def)

lemma ModelDisplayer_paused_at_boundary:
  "ModelDisplayer_reachable gltf s \<Longrightarrow> paused (mixer s r) \<Longrightarrow>
   time (mixer s r) = 0 \<or> time (mixer s r) = duration r"
proof (induction arbitrary: r rule: ModelDisplayer_reachable.induct)
  case MD_loaded
  then show ?case
    by (simp add: ModelDisplayer_loaded_def new_AnimationMixer_def new_AnimationAction_def)
next
  case (MD_playAnimation s clipName)
  then show ?case
    by (auto simp add: ModelDisplayer_playAnimation_def play_def Let_def
          split: if_splits option.splits)
next
  case (MD_revertToOriginalPosition s)
  then show ?case
    by (auto simp add: ModelDisplayer_revertToOriginalPosition_def play_def Let_def
          split: if_splits option.splits)
next
  case (MD_animate s elapsed)
  show ?case
  proof (cases "paused (mixer s r)")
    case True
    then show ?thesis
      using MD_animate.IH [of r]
      by (simp add: ModelDisplayer_animate_def AnimationMixer_update_def
            AnimationAction_update_paused_same)
  next
    case False
    then show ?thesis
      using MD_animate.prems
        AnimationAction_update_paused [of "elapsed * TIME_SCALE_FACTOR" r "mixer s r"]
      by (simp add: ModelDisplayer_animate_def AnimationMixer_update_def)
  qed
qed

lemma CursorObject_currentClipDuration:
  "CursorObject_reachable c gltf s \<Longrightarrow> currentAction s = Some r \<Longrightarrow>
   currentClipDuration s = duration r"
proof (induction arbitrary: r rule: CursorObject_reachable.induct)
  case CO_loaded
  then show ?case by (simp add: CursorObject_loaded_def)
next
  case (CO_setCursorPosition s intersectPoint)
  then show ?case by (simp add: CursorObject_setCursorPosition_def)
next
  case (CO_getModelAnimation s)
  then show ?case by (simp add: CursorObject_getModelAnimation_def)
next
  case (CO_playAnimation s clipName)
  then show ?case
    by (auto simp add: CursorObject_playAnimation_def CursorObject_isActionPlayable_def Let_def
          split: if_splits option.splits)
next
  case (CO_animate s elapsed)
  then show ?case by (simp add: CursorObject_animate_def)
qed

lemma getModelAnimation_at_examples:
  "trigger_centres s = CursorObject_trigger_centres animationConstants \<Longrightarrow>
   CursorObject_getModelAnimation animationConstants
       (CursorObject_setCursorPosition (Vector3 37 33 30) s) =
     (''HEAD'', CursorObject_setCursorPosition (Vector3 37 33 30) s)"
  "trigger_centres s = CursorObject_trigger_centres animationConstants \<Longrightarrow>
   CursorObject_getModelAnimation animationConstants
       (CursorObject_setCursorPosition (Vector3 36 30 34) s) =
     (''TOUCH'', CursorObject_setCursorPosition (Vector3 36 30 34) s)"
  by (simp_all add: CursorObject_getModelAnimation_def CursorObject_setCursorPosition_def
        within_radius_iff trigger_centres_distinct animationConstants_def)

lemma CursorObject_playAnimation_trigger_centres:
  "trigger_centres (snd (CursorObject_playAnimation c clipName s)) = trigger_centres s"
  by (simp add: CursorObject_playAnimation_def CursorObject_isActionPlayable_def Let_def
        split: option.splits prod.splits)

lemma hostHeadThenTouch_by_events:
  "fst (home_events animationConstants
      [Mousemove (Vector3 37 33 30), Mousemove (Vector3 36 30 34), Frame 0.1]
      (ModelDisplayer_loaded char_2_glb, CursorObject_loaded animationConstants hand_glb)) =
   hostHeadThenTouch"
proof -
  define host1 where "host1 = snd (ModelDisplayer_playAnimation ''HEAD'' (ModelDisplayer_loaded char_2_glb))"
  define host2 where "host2 = snd (ModelDisplayer_playAnimation ''TOUCH'' host1)"
  define hand1 where "hand1 = snd (CursorObject_playAnimation animationConstants ''HEAD''
      (CursorObject_setCursorPosition (Vector3 37 33 30)
         (CursorObject_loaded animationConstants hand_glb)))"
  have none: "NONE animationConstants = ''none''"
    by (simp add: animationConstants_def)
  have "fst (ModelDisplayer_playAnimation ''HEAD'' (ModelDisplayer_loaded char_2_glb)) = Returns"
    by (simp add: operation_defs example_defs)
  then have first: "ModelDisplayer_playAnimation ''HEAD'' (ModelDisplayer_loaded char_2_glb) =
                      (Returns, host1)"
    by (simp add: host1_def prod_eq_iff)
  have "fst (ModelDisplayer_playAnimation ''TOUCH'' host1) = Returns"
    by (simp add: host1_def operation_defs example_defs)
  then have second: "ModelDisplayer_playAnimation ''TOUCH'' host1 = (Returns, host2)"
    by (simp add: host2_def prod_eq_iff)
  have hand1: "trigger_centres hand1 = CursorObject_trigger_centres animationConstants"
    by (simp add: hand1_def CursorObject_playAnimation_trigger_centres
          CursorObject_setCursorPosition_def CursorObject_loaded_def)
  have step1: "home_event animationConstants
                 (ModelDisplayer_loaded char_2_glb, CursorObject_loaded animationConstants hand_glb)
                 (Mousemove (Vector3 37 33 30)) = (host1, hand1)"
    by (simp add: home_mousemove_def getModelAnimation_at_examples none first hand1_def
          CursorObject_loaded_def Let_def split_beta)
  have step2: "fst (home_event animationConstants (host1, hand1)
                 (Mousemove (Vector3 36 30 34))) = host2"
    by (simp add: home_mousemove_def getModelAnimation_at_examples hand1 none second
          Let_def split_beta)
  have "home_events animationConstants
          [Mousemove (Vector3 37 33 30), Mousemove (Vector3 36 30 34), Frame 0.1]
          (ModelDisplayer_loaded char_2_glb, CursorObject_loaded animationConstants hand_glb) =
        home_animate 0.1
          (home_event animationConstants (host1, hand1) (Mousemove (Vector3 36 30 34)))"
    by (simp only: home_events_def foldl.simps step1 home_event.simps(4))
  then have "fst (home_events animationConstants
          [Mousemove (Vector3 37 33 30), Mousemove (Vector3 36 30 34), Frame 0.1]
          (ModelDisplayer_loaded char_2_glb, CursorObject_loaded animationConstants hand_glb)) =
        ModelDisplayer_animate 0.1 host2"
    by (simp only: home_animate_def Let_def split_beta fst_conv step2)
  then show ?thesis
    by (simp only: hostHeadThenTouch_def host1_def host2_def)
qed

lemma handClickThenScroll_by_events:
  "snd (home_events animationConstants [Click, Frame 2, Scroll, Frame 0.4]
      (ModelDisplayer_loaded char_2_glb, CursorObject_loaded animationConstants hand_glb)) =
   handClickThenScroll"
  by (simp add: home_events_def home_click_def home_scroll_def home_animate_def
        handClickThenScroll_def animationConstants_def split_beta)

text \<open>
  Claim C3. The code does not keep the spec's invariant, in states the page reaches by
  its own events. On the Scene Host, the pointer moves into the region of HEAD and then,
  before any frame, into the region of TOUCH: both requests are admitted, since the first
  action is still at time 0; nothing stops the first action, and the next frame advances
  both clips. On the Pointer Proxy, when the clip of a click has run to its end, the
  admission of the scroll resets the click's action, which is still scheduled, and the
  next frame advances both clips. With a CLICK clip that lasts longer than the SCROLL
  clip, the next scroll is admitted and starts its clip while the CLICK clip is playing
  mid-clip, at 1.5 of 3.
\<close>

theorem single_clip_invariant_fails:
  "fst (home_events animationConstants
      [Mousemove (Vector3 37 33 30), Mousemove (Vector3 36 30 34), Frame 0.1]
      (ModelDisplayer_loaded char_2_glb, CursorObject_loaded animationConstants hand_glb)) =
     hostHeadThenTouch \<and>
   snd (home_events animationConstants [Click, Frame 2, Scroll, Frame 0.4]
      (ModelDisplayer_loaded char_2_glb, CursorObject_loaded animationConstants hand_glb)) =
     handClickThenScroll \<and>
   ModelDisplayer_reachable char_2_glb hostHeadThenTouch \<and>
   \<not> atMostOnePlaying hostHeadThenTouch \<and>
   playingClips hostHeadThenTouch =
     [\<lparr>name = ''TOUCH'', duration = 2\<rparr>, \<lparr>name = ''HEAD'', duration = 2\<rparr>] \<and>
   time (mixer hostHeadThenTouch \<lparr>name = ''HEAD'', duration = 2\<rparr>) = 0.075 \<and>
   time (mixer hostHeadThenTouch \<lparr>name = ''TOUCH'', duration = 2\<rparr>) = 0.075 \<and>
   CursorObject_reachable animationConstants hand_glb handClickThenScroll \<and>
   \<not> atMostOnePlaying handClickThenScroll \<and>
   playingClips handClickThenScroll =
     [\<lparr>name = ''SCROLL'', duration = 1\<rparr>, \<lparr>name = ''CLICK'', duration = 1\<rparr>] \<and>
   time (mixer handClickThenScroll \<lparr>name = ''CLICK'', duration = 1\<rparr>) = 0.3 \<and>
   time (mixer handClickThenScroll \<lparr>name = ''SCROLL'', duration = 1\<rparr>) = 0.3 \<and>
   snd (home_events animationConstants [Click, Frame 4, Scroll, Frame 2]
      (ModelDisplayer_loaded char_2_glb,
       CursorObject_loaded animationConstants hand_slow_click_glb)) =
     handSlowClickThenScroll \<and>
   snd (home_events animationConstants [Click, Frame 4, Scroll, Frame 2, Scroll]
      (ModelDisplayer_loaded char_2_glb,
       CursorObject_loaded animationConstants hand_slow_click_glb)) =
     handScrollAgain \<and>
   CursorObject_reachable animationConstants hand_slow_click_glb handSlowClickThenScroll \<and>
   currentAction handSlowClickThenScroll = Some \<lparr>name = ''SCROLL'', duration = 1\<rparr> \<and>
   playingClips handSlowClickThenScroll = [\<lparr>name = ''CLICK'', duration = 3\<rparr>] \<and>
   time (mixer handSlowClickThenScroll \<lparr>name = ''CLICK'', duration = 3\<rparr>) = 1.5 \<and>
   midClip handSlowClickThenScroll \<lparr>name = ''CLICK'', duration = 3\<rparr> \<and>
   fst (CursorObject_playAnimation animationConstants ''SCROLL'' handSlowClickThenScroll) =
     Returns \<and>
   playingClips handScrollAgain =
     [\<lparr>name = ''SCROLL'', duration = 1\<rparr>, \<lparr>name = ''CLICK'', duration = 3\<rparr>] \<and>
   time (mixer handScrollAgain \<lparr>name = ''SCROLL'', duration = 1\<rparr>) = 0 \<and>
   midClip handScrollAgain \<lparr>name = ''CLICK'', duration = 3\<rparr>"
proof -
  have m_reach: "ModelDisplayer_reachable char_2_glb hostHeadThenTouch"
    unfolding hostHeadThenTouch_def by (intro ModelDisplayer_reachable.intros)
  have s_reach: "CursorObject_reachable animationConstants hand_glb handClickThenScroll"
    unfolding handClickThenScroll_def by (intro CursorObject_reachable.intros)
  have m_clips: "animations hostHeadThenTouch = gltfAnimations char_2_glb"
    by (simp add: hostHeadThenTouch_def operation_defs example_defs)
  have s_clips: "animations handClickThenScroll = gltfAnimations hand_glb"
    by (simp add: handClickThenScroll_def operation_defs example_defs)
  have m_actions:
    "isPlaying (mixer hostHeadThenTouch \<lparr>name = ''TOUCH'', duration = 2\<rparr>)"
    "\<not> isPlaying (mixer hostHeadThenTouch \<lparr>name = ''SHOES'', duration = 2\<rparr>)"
    "isPlaying (mixer hostHeadThenTouch \<lparr>name = ''HEAD'', duration = 2\<rparr>)"
    "\<not> isPlaying (mixer hostHeadThenTouch \<lparr>name = ''LA'', duration = 2\<rparr>)"
    by (simp_all add: isPlaying_def hostHeadThenTouch_def operation_defs example_defs)
  have s_actions:
    "\<not> isPlaying (mixer handClickThenScroll \<lparr>name = ''LA'', duration = 1\<rparr>)"
    "isPlaying (mixer handClickThenScroll \<lparr>name = ''SCROLL'', duration = 1\<rparr>)"
    "isPlaying (mixer handClickThenScroll \<lparr>name = ''CLICK'', duration = 1\<rparr>)"
    "\<not> isPlaying (mixer handClickThenScroll \<lparr>name = ''INDEX_FINGER'', duration = 1\<rparr>)"
    by (simp_all add: isPlaying_def handClickThenScroll_def operation_defs example_defs)
  have m_playing: "playingClips hostHeadThenTouch =
      [\<lparr>name = ''TOUCH'', duration = 2\<rparr>, \<lparr>name = ''HEAD'', duration = 2\<rparr>]"
    by (simp add: playingClips_def m_clips m_actions char_2_glb_def)
  have s_playing: "playingClips handClickThenScroll =
      [\<lparr>name = ''SCROLL'', duration = 1\<rparr>, \<lparr>name = ''CLICK'', duration = 1\<rparr>]"
    by (simp add: playingClips_def s_clips s_actions hand_glb_def)
  have m_two: "\<not> atMostOnePlaying hostHeadThenTouch"
    by (simp add: atMostOnePlaying_def m_playing)
  have s_two: "\<not> atMostOnePlaying handClickThenScroll"
    by (simp add: atMostOnePlaying_def s_playing)
  have times:
    "time (mixer hostHeadThenTouch \<lparr>name = ''HEAD'', duration = 2\<rparr>) = 0.075"
    "time (mixer hostHeadThenTouch \<lparr>name = ''TOUCH'', duration = 2\<rparr>) = 0.075"
    "time (mixer handClickThenScroll \<lparr>name = ''CLICK'', duration = 1\<rparr>) = 0.3"
    "time (mixer handClickThenScroll \<lparr>name = ''SCROLL'', duration = 1\<rparr>) = 0.3"
    by (simp_all add: hostHeadThenTouch_def handClickThenScroll_def operation_defs example_defs)
  have by_events:
    "snd (home_events animationConstants [Click, Frame 4, Scroll, Frame 2]
      (ModelDisplayer_loaded char_2_glb,
       CursorObject_loaded animationConstants hand_slow_click_glb)) =
     handSlowClickThenScroll"
    "snd (home_events animationConstants [Click, Frame 4, Scroll, Frame 2, Scroll]
      (ModelDisplayer_loaded char_2_glb,
       CursorObject_loaded animationConstants hand_slow_click_glb)) =
     handScrollAgain"
    by (simp_all add: home_events_def home_click_def home_scroll_def home_animate_def
          handSlowClickThenScroll_def handScrollAgain_def animationConstants_def split_beta)
  have slow_reach: "CursorObject_reachable animationConstants hand_slow_click_glb handSlowClickThenScroll"
    unfolding handSlowClickThenScroll_def by (intro CursorObject_reachable.intros)
  have slow_clips: "animations handSlowClickThenScroll = gltfAnimations hand_slow_click_glb"
    "animations handScrollAgain = gltfAnimations hand_slow_click_glb"
    by (simp_all add: handSlowClickThenScroll_def handScrollAgain_def hand_slow_click_glb_def
          animationConstants_def CursorObject_loaded_def new_AnimationMixer_def
          new_AnimationAction_def operation_defs)
  have before:
    "currentAction handSlowClickThenScroll = Some \<lparr>name = ''SCROLL'', duration = 1\<rparr>"
    "\<not> isPlaying (mixer handSlowClickThenScroll \<lparr>name = ''LA'', duration = 1\<rparr>)"
    "\<not> isPlaying (mixer handSlowClickThenScroll \<lparr>name = ''SCROLL'', duration = 1\<rparr>)"
    "isPlaying (mixer handSlowClickThenScroll \<lparr>name = ''CLICK'', duration = 3\<rparr>)"
    "\<not> isPlaying (mixer handSlowClickThenScroll \<lparr>name = ''INDEX_FINGER'', duration = 1\<rparr>)"
    "time (mixer handSlowClickThenScroll \<lparr>name = ''CLICK'', duration = 3\<rparr>) = 1.5"
    "fst (CursorObject_playAnimation animationConstants ''SCROLL'' handSlowClickThenScroll) =
       Returns"
    by (simp_all add: isPlaying_def handSlowClickThenScroll_def handScrollAgain_def hand_slow_click_glb_def
          animationConstants_def CursorObject_loaded_def new_AnimationMixer_def
          new_AnimationAction_def operation_defs)
  have after:
    "\<not> isPlaying (mixer handScrollAgain \<lparr>name = ''LA'', duration = 1\<rparr>)"
    "isPlaying (mixer handScrollAgain \<lparr>name = ''SCROLL'', duration = 1\<rparr>)"
    "isPlaying (mixer handScrollAgain \<lparr>name = ''CLICK'', duration = 3\<rparr>)"
    "\<not> isPlaying (mixer handScrollAgain \<lparr>name = ''INDEX_FINGER'', duration = 1\<rparr>)"
    "time (mixer handScrollAgain \<lparr>name = ''SCROLL'', duration = 1\<rparr>) = 0"
    "time (mixer handScrollAgain \<lparr>name = ''CLICK'', duration = 3\<rparr>) = 1.5"
    by (simp_all add: isPlaying_def handSlowClickThenScroll_def handScrollAgain_def hand_slow_click_glb_def
          animationConstants_def CursorObject_loaded_def new_AnimationMixer_def
          new_AnimationAction_def operation_defs)
  have slow_playing:
    "playingClips handSlowClickThenScroll = [\<lparr>name = ''CLICK'', duration = 3\<rparr>]"
    "playingClips handScrollAgain =
       [\<lparr>name = ''SCROLL'', duration = 1\<rparr>, \<lparr>name = ''CLICK'', duration = 3\<rparr>]"
    by (simp_all add: playingClips_def slow_clips before after hand_slow_click_glb_def)
  have mid: "midClip handSlowClickThenScroll \<lparr>name = ''CLICK'', duration = 3\<rparr>"
    "midClip handScrollAgain \<lparr>name = ''CLICK'', duration = 3\<rparr>"
    by (simp_all add: midClip_def before after)
  from hostHeadThenTouch_by_events handClickThenScroll_by_events
    m_reach m_two m_playing s_reach s_two s_playing times
    by_events slow_reach before slow_playing mid after
  show ?thesis by blast
qed

section \<open>A TOUCH request that does not play\<close>

lemmas home_defs =
  home_events_def home_mousemove_def home_click_def home_scroll_def home_animate_def
  CursorObject_getModelAnimation_def CursorObject_setCursorPosition_def within_radius_iff
  trigger_centres_distinct Let_def split_beta

text \<open>
  Claim C9. The request for TOUCH looks up the clip named INDEX_FINGER, and the clip does
  not always play. After a TOUCH request whose clip has run to its end, a click, and a
  frame that ends both clips, the next TOUCH request is admitted: the admission resets
  the action of CLICK, the action of INDEX_FINGER becomes the current one, disabled at
  its end as the last frame left it, and \<open>play()\<close> does not restart it. The next
  frame advances CLICK and not INDEX_FINGER. The page reaches the state by a pointer
  move into the region of TOUCH, a frame, a click, a frame and another pointer move.
\<close>

theorem touch_request_does_not_play:
  "CursorObject_reachable animationConstants hand_glb handTouchThenClick \<and>
   fst (CursorObject_isActionPlayable handTouchThenClick) = True \<and>
   findByName (animations handTouchThenClick) ''INDEX_FINGER'' =
     Some \<lparr>name = ''INDEX_FINGER'', duration = 1\<rparr> \<and>
   fst (CursorObject_playAnimation animationConstants ''TOUCH'' handTouchThenClick) = Returns \<and>
   currentAction handTouchAgain = Some \<lparr>name = ''INDEX_FINGER'', duration = 1\<rparr> \<and>
   isScheduled (mixer handTouchAgain \<lparr>name = ''INDEX_FINGER'', duration = 1\<rparr>) = True \<and>
   enabled (mixer handTouchAgain \<lparr>name = ''INDEX_FINGER'', duration = 1\<rparr>) = False \<and>
   time (mixer handTouchAgain \<lparr>name = ''INDEX_FINGER'', duration = 1\<rparr>) = 1 \<and>
   playingClips handTouchAgain = [\<lparr>name = ''CLICK'', duration = 1\<rparr>] \<and>
   time (mixer handTouchAgain \<lparr>name = ''CLICK'', duration = 1\<rparr>) = 0 \<and>
   time (mixer (CursorObject_animate 0.4 handTouchAgain)
           \<lparr>name = ''INDEX_FINGER'', duration = 1\<rparr>) = 1 \<and>
   time (mixer (CursorObject_animate 0.4 handTouchAgain)
           \<lparr>name = ''CLICK'', duration = 1\<rparr>) = 0.3 \<and>
   currentAction (snd (home_events animationConstants
      [Mousemove (Vector3 36 30 34), Frame 2, Click, Frame 2, Mousemove (Vector3 36 30 34),
       Frame 0.4]
      (ModelDisplayer_loaded char_2_glb, CursorObject_loaded animationConstants hand_glb))) =
     Some \<lparr>name = ''INDEX_FINGER'', duration = 1\<rparr> \<and>
   time (mixer (snd (home_events animationConstants
      [Mousemove (Vector3 36 30 34), Frame 2, Click, Frame 2, Mousemove (Vector3 36 30 34),
       Frame 0.4]
      (ModelDisplayer_loaded char_2_glb, CursorObject_loaded animationConstants hand_glb)))
      \<lparr>name = ''INDEX_FINGER'', duration = 1\<rparr>) = 1 \<and>
   time (mixer (snd (home_events animationConstants
      [Mousemove (Vector3 36 30 34), Frame 2, Click, Frame 2, Mousemove (Vector3 36 30 34),
       Frame 0.4]
      (ModelDisplayer_loaded char_2_glb, CursorObject_loaded animationConstants hand_glb)))
      \<lparr>name = ''CLICK'', duration = 1\<rparr>) = 0.3"
proof -
  have reach: "CursorObject_reachable animationConstants hand_glb handTouchThenClick"
    unfolding handTouchThenClick_def by (intro CursorObject_reachable.intros)
  have clips: "animations handTouchThenClick = gltfAnimations hand_glb"
    "animations handTouchAgain = gltfAnimations hand_glb"
    by (simp_all add: handTouchThenClick_def handTouchAgain_def operation_defs
          example_defs)
  have before:
    "fst (CursorObject_isActionPlayable handTouchThenClick) = True"
    "fst (CursorObject_playAnimation animationConstants ''TOUCH'' handTouchThenClick) = Returns"
    by (simp_all add: handTouchThenClick_def handTouchAgain_def operation_defs
          example_defs)
  have found: "findByName (animations handTouchThenClick) ''INDEX_FINGER'' =
     Some \<lparr>name = ''INDEX_FINGER'', duration = 1\<rparr>"
    by (simp add: clips hand_glb_def)
  have after:
    "currentAction handTouchAgain = Some \<lparr>name = ''INDEX_FINGER'', duration = 1\<rparr>"
    "isScheduled (mixer handTouchAgain \<lparr>name = ''INDEX_FINGER'', duration = 1\<rparr>) = True"
    "enabled (mixer handTouchAgain \<lparr>name = ''INDEX_FINGER'', duration = 1\<rparr>) = False"
    "time (mixer handTouchAgain \<lparr>name = ''INDEX_FINGER'', duration = 1\<rparr>) = 1"
    "time (mixer handTouchAgain \<lparr>name = ''CLICK'', duration = 1\<rparr>) = 0"
    by (simp_all add: handTouchThenClick_def handTouchAgain_def operation_defs
          example_defs)
  have actions:
    "\<not> isPlaying (mixer handTouchAgain \<lparr>name = ''LA'', duration = 1\<rparr>)"
    "\<not> isPlaying (mixer handTouchAgain \<lparr>name = ''SCROLL'', duration = 1\<rparr>)"
    "isPlaying (mixer handTouchAgain \<lparr>name = ''CLICK'', duration = 1\<rparr>)"
    "\<not> isPlaying (mixer handTouchAgain \<lparr>name = ''INDEX_FINGER'', duration = 1\<rparr>)"
    by (simp_all add: isPlaying_def handTouchThenClick_def handTouchAgain_def operation_defs
          example_defs)
  have playing: "playingClips handTouchAgain = [\<lparr>name = ''CLICK'', duration = 1\<rparr>]"
    by (simp add: playingClips_def clips actions hand_glb_def)
  have frame:
    "time (mixer (CursorObject_animate 0.4 handTouchAgain)
           \<lparr>name = ''INDEX_FINGER'', duration = 1\<rparr>) = 1"
    "time (mixer (CursorObject_animate 0.4 handTouchAgain)
           \<lparr>name = ''CLICK'', duration = 1\<rparr>) = 0.3"
    by (simp_all add: handTouchThenClick_def handTouchAgain_def operation_defs
          example_defs)
  have page:
    "currentAction (snd (home_events animationConstants
      [Mousemove (Vector3 36 30 34), Frame 2, Click, Frame 2, Mousemove (Vector3 36 30 34),
       Frame 0.4]
      (ModelDisplayer_loaded char_2_glb, CursorObject_loaded animationConstants hand_glb))) =
     Some \<lparr>name = ''INDEX_FINGER'', duration = 1\<rparr>"
    "time (mixer (snd (home_events animationConstants
      [Mousemove (Vector3 36 30 34), Frame 2, Click, Frame 2, Mousemove (Vector3 36 30 34),
       Frame 0.4]
      (ModelDisplayer_loaded char_2_glb, CursorObject_loaded animationConstants hand_glb)))
      \<lparr>name = ''INDEX_FINGER'', duration = 1\<rparr>) = 1"
    "time (mixer (snd (home_events animationConstants
      [Mousemove (Vector3 36 30 34), Frame 2, Click, Frame 2, Mousemove (Vector3 36 30 34),
       Frame 0.4]
      (ModelDisplayer_loaded char_2_glb, CursorObject_loaded animationConstants hand_glb)))
      \<lparr>name = ''CLICK'', duration = 1\<rparr>) = 0.3"
    by (simp_all add: home_defs operation_defs example_defs)
  from reach before found after playing frame page show ?thesis by blast
qed

section \<open>Load failures and errors\<close>









end
